theory Spec2Isabelle
  imports Main "HOL-Library.Word"
begin

unbundle bit_operations_syntax

section \<open>Machine types\<close>

text \<open>
  The driver is written for an LP64 Linux kernel: \<open>unsigned long\<close>, \<open>size_t\<close> and
  pointers are 64-bit words, \<open>int\<close> and \<open>unsigned\<close> are 32-bit words. A signed value
  is read with \<open>sint\<close>; the conversion of an \<open>int\<close> to \<open>unsigned long\<close> is the
  sign extension \<open>scast\<close>.
\<close>

type_synonym ulong = "64 word"
type_synonym cint = "32 word"
type_synonym cuint = "32 word"

section \<open>short.c: module state\<close>

text \<open>
  The file-scope variables of \<open>short.c\<close>. The first eight are module parameters
  (\<open>module_param\<close>); \<open>short_base\<close> and \<open>short_irq\<close> are their working copies;
  \<open>short_buffer\<close>, \<open>short_head\<close> and \<open>short_tail\<close> are the page of the circular
  buffer and its two cursors, all three kept as addresses.
\<close>

record short_globals =
  major :: cint
  use_mem :: cint
  base :: ulong
  short_base :: ulong
  irq :: cint
  short_irq :: cint
  probe :: cint
  wq :: cint
  tasklet :: cint
  share :: cint
  short_buffer :: ulong
  short_head :: ulong
  short_tail :: ulong

text \<open>The static initialisers; \<open>short_head\<close> and \<open>short_tail\<close> have none and start at 0.\<close>

definition short_globals_init :: short_globals where
  "short_globals_init =
     \<lparr> major = 0, use_mem = 0, base = 0x378, short_base = 0,
       irq = - 1, short_irq = - 1, probe = 0, wq = 0, tasklet = 0, share = 0,
       short_buffer = 0, short_head = 0, short_tail = 0 \<rparr>"

text \<open>
  What the loader may be given for each \<open>module_param\<close> declaration of the file:
  \<open>None\<close> when the parameter is not supplied.
\<close>

record short_params =
  p_major :: "cint option"
  p_use_mem :: "cint option"
  p_base :: "ulong option"
  p_irq :: "cint option"
  p_probe :: "cint option"
  p_wq :: "cint option"
  p_tasklet :: "cint option"
  p_share :: "cint option"

definition no_params :: short_params where
  "no_params =
     \<lparr> p_major = None, p_use_mem = None, p_base = None, p_irq = None,
       p_probe = None, p_wq = None, p_tasklet = None, p_share = None \<rparr>"

text \<open>
  Loading the module: a supplied parameter overwrites the variable it is declared for,
  every other variable keeps its static initialiser.
\<close>

definition module_load :: "short_params \<Rightarrow> short_globals" where
  "module_load p =
     short_globals_init
       \<lparr> major := (case p_major p of None \<Rightarrow> major short_globals_init | Some v \<Rightarrow> v),
         use_mem := (case p_use_mem p of None \<Rightarrow> use_mem short_globals_init | Some v \<Rightarrow> v),
         base := (case p_base p of None \<Rightarrow> base short_globals_init | Some v \<Rightarrow> v),
         irq := (case p_irq p of None \<Rightarrow> irq short_globals_init | Some v \<Rightarrow> v),
         probe := (case p_probe p of None \<Rightarrow> probe short_globals_init | Some v \<Rightarrow> v),
         wq := (case p_wq p of None \<Rightarrow> wq short_globals_init | Some v \<Rightarrow> v),
         tasklet := (case p_tasklet p of None \<Rightarrow> tasklet short_globals_init | Some v \<Rightarrow> v),
         share := (case p_share p of None \<Rightarrow> share short_globals_init | Some v \<Rightarrow> v) \<rparr>"

section \<open>short.c: the cursor advance\<close>

text \<open>
  \<open>short_incr_bp\<close> takes a pointer to one of the two cursors. The pointer is modelled
  by the variable it points to; \<open>deref\<close> and \<open>store\<close> are the load and the store
  through it.
\<close>

datatype index_ptr = Short_head | Short_tail

fun deref :: "index_ptr \<Rightarrow> short_globals \<Rightarrow> ulong" where
  "deref Short_head s = short_head s"
| "deref Short_tail s = short_tail s"

fun store :: "index_ptr \<Rightarrow> ulong \<Rightarrow> short_globals \<Rightarrow> short_globals" where
  "store Short_head v s = s\<lparr>short_head := v\<rparr>"
| "store Short_tail v s = s\<lparr>short_tail := v\<rparr>"

text \<open>
  \<^verbatim>\<open>
  static inline void short_incr_bp(volatile unsigned long *index, int delta)
  {
      unsigned long new = *index + delta;
      barrier();
      *index = (new >= (short_buffer + PAGE_SIZE)) ? short_buffer : new;
  }
  \<close>
  \<open>PAGE_SIZE\<close> is a macro of the kernel headers and is a parameter here. \<open>delta\<close> is
  converted to \<open>unsigned long\<close> before the addition, which wraps modulo \<open>2 ^ 64\<close>, and
  the comparison is unsigned. \<open>barrier()\<close> constrains the compiler only and has no
  effect on the values computed.
\<close>

definition short_incr_bp :: "ulong \<Rightarrow> index_ptr \<Rightarrow> cint \<Rightarrow> short_globals \<Rightarrow> short_globals" where
  "short_incr_bp PAGE_SIZE index delta s =
     (let new = deref index s + scast delta
      in store index (if new \<ge> short_buffer s + PAGE_SIZE then short_buffer s else new) s)"

section \<open>short.c: open and release\<close>

text \<open>
  A \<open>struct file_operations *\<close> is modelled by the table it points to: the
  interrupt device's \<open>short_i_fops\<close>, or any other table, told apart by a tag.
  Of \<open>struct file\<close> only \<open>f_op\<close> is named; the record's extension stands for the
  rest of the structure.
\<close>

datatype fops_ptr = Short_i_fops | Other_fops nat

record "file" =
  f_op :: fops_ptr

text \<open>
  \<^verbatim>\<open>
  int short_open(struct inode *inode, struct file *filp)
  {
      extern struct file_operations short_i_fops;
      if(iminor (inode) & 0x80){
          filp->f_op = &short_i_fops;
      }
      return 0;
  }
  \<close>
  \<open>iminor\<close> is a function of the kernel headers (it returns \<open>unsigned\<close>); it is a
  parameter, and so is the inode type. The result is the returned \<open>int\<close> together with
  the file structure as the call leaves it.
\<close>

definition short_open :: "('inode \<Rightarrow> cuint) \<Rightarrow> 'inode \<Rightarrow> 'more file_scheme \<Rightarrow> cint \<times> 'more file_scheme" where
  "short_open iminor inode filp =
     (if iminor inode AND 0x80 \<noteq> 0 then (0, filp\<lparr>f_op := Short_i_fops\<rparr>) else (0, filp))"

text \<open>
  \<^verbatim>\<open>
  int short_release(struct inode *inode, struct file *filp)
  {
      return 0;
  }
  \<close>
\<close>

definition short_release :: "'inode \<Rightarrow> 'more file_scheme \<Rightarrow> cint \<times> 'more file_scheme" where
  "short_release inode filp = (0, filp)"

section \<open>short.c: the port-oriented read\<close>

datatype short_modes = SHORT_DEFAULT | SHORT_PAUSE | SHORT_STRING | SHORT_MEMORY

text \<open>The enumerators' values: \<open>SHORT_DEFAULT=0\<close>, the others counting up from it.\<close>

fun short_modes_val :: "short_modes \<Rightarrow> cint" where
  "short_modes_val SHORT_DEFAULT = 0"
| "short_modes_val SHORT_PAUSE = 1"
| "short_modes_val SHORT_STRING = 2"
| "short_modes_val SHORT_MEMORY = 3"

text \<open>
  \<^verbatim>\<open>
  ssize_t do_short_read(struct inode *inode, struct file *filp, char __user *buf,
                        size_t count, loff_t *f_ops)
  {
      int retval = count;
      int minor = iminor(inode);
      unsigned long port = short_base + (minor & 0x0f);
      void *address = (void *) short_base + (minor * 0x0f);
      int mode = (minor & 0x70) >> 4;
      unsigned char *kbuf = kmalloc(count, GFP_KERNEL);
      unsigned char *ptr;
  }
  \<close>
  The body in the repository ends after its declarations: it stores nothing and
  returns nothing. The model gives the locals as they are initialised. \<open>kbuf\<close> (what
  the kernel allocator returns) and the uninitialised \<open>ptr\<close> are left out; no other
  local depends on them.

  \<open>retval\<close> truncates the 64-bit \<open>count\<close> to \<open>int\<close>. \<open>minor & 0x0f\<close> and
  \<open>minor * 0x0f\<close> are computed in \<open>int\<close> and then sign-extended to 64 bits for the
  addition (the cast binds to \<open>short_base\<close> alone, and arithmetic on \<open>void *\<close>
  counts bytes). \<open>>>\<close> on an \<open>int\<close> is the arithmetic shift.
\<close>

record read_locals =
  retval :: cint
  minor :: cint
  port :: ulong
  address :: ulong
  mode :: cint

definition do_short_read ::
  "('inode \<Rightarrow> cuint) \<Rightarrow> short_globals \<Rightarrow> 'inode \<Rightarrow> 'more file_scheme \<Rightarrow> ulong \<Rightarrow> ulong \<Rightarrow> ulong
     \<Rightarrow> read_locals" where
  "do_short_read iminor s inode filp buf count f_ops =
     (let retval = ucast count;
          minor = iminor inode;
          port = short_base s + scast (minor AND 0x0f);
          address = short_base s + scast (minor * 0x0f);
          mode = signed_drop_bit 4 (minor AND 0x70)
      in \<lparr> retval = retval, minor = minor, port = port, address = address, mode = mode \<rparr>)"

section \<open>sram.h\<close>

text \<open>
  The three structures of the header. Pointers are addresses; \<open>struct list_head\<close> is
  its two links. \<open>struct bin_attribute\<close> and \<open>struct mutex\<close> are kernel types
  embedded by value and are type parameters. The fields carry a prefix for their
  structure (\<open>sd_\<close>, \<open>sp_\<close>, \<open>sr_\<close>), since several names occur in more than one.
\<close>

record list_head =
  lh_next :: ulong
  lh_prev :: ulong

record sram_dev =
  sd_dev :: ulong
  sd_virt_base :: ulong
  sd_pool :: ulong
  sd_clk :: ulong
  sd_partition :: ulong
  sd_partitions :: "32 word"

record ('battr, 'mutex) sram_partition =
  sp_base :: ulong
  sp_pool :: ulong
  sp_battr :: 'battr
  sp_lock :: 'mutex
  sp_list :: list_head

record sram_reserve =
  sr_list :: list_head
  sr_start :: "32 word"
  sr_size :: "32 word"
  sr_export :: bool
  sr_pool :: bool
  sr_protect_exec :: bool
  sr_label :: ulong

text \<open>
  The memory the two functions are handed pointers into: the structures of each kind,
  by address.
\<close>

record ('battr, 'mutex) sram_heap =
  devs :: "ulong \<rightharpoonup> sram_dev"
  reserves :: "ulong \<rightharpoonup> sram_reserve"
  parts :: "ulong \<rightharpoonup> ('battr, 'mutex) sram_partition"

text \<open>
  The branch of the header taken when \<open>CONFIG_SRAM_EXEC\<close> is not defined (with it
  defined the header only declares the two functions):
  \<^verbatim>\<open>
  static inline int sram_check_protect_exec(struct sram_dev *sram,
                                            struct sram_reserve *block,
                                            struct sram_partition *part)
  {
      return -ENODEV;
  }

  static inline int sram_add_protect_exec(struct sram_partition *part)
  {
      return -ENODEV;
  }
  \<close>
  \<open>ENODEV\<close> is a macro of the kernel headers and is a parameter. Each function takes
  its pointers and the memory, and gives the returned \<open>int\<close> and the memory as the
  call leaves it.
\<close>

definition sram_check_protect_exec ::
  "cint \<Rightarrow> ulong \<Rightarrow> ulong \<Rightarrow> ulong \<Rightarrow> ('battr, 'mutex) sram_heap \<Rightarrow> cint \<times> ('battr, 'mutex) sram_heap" where
  "sram_check_protect_exec ENODEV sram block part h = (- ENODEV, h)"

definition sram_add_protect_exec ::
  "cint \<Rightarrow> ulong \<Rightarrow> ('battr, 'mutex) sram_heap \<Rightarrow> cint \<times> ('battr, 'mutex) sram_heap" where
  "sram_add_protect_exec ENODEV part h = (- ENODEV, h)"

section \<open>Word arithmetic used below\<close>

lemma sint_cint_less: "sint (delta :: cint) < 2 ^ 31"
  using sint_lt [of delta] by simp

lemma nat_sint_cint_less: "nat (sint (delta :: cint)) < 2 ^ 31"
  using sint_cint_less [of delta] by (simp add: nat_less_iff)

lemma unat_scast_nonneg:
  fixes delta :: cint
  assumes "0 \<le> sint delta"
  shows "unat (scast delta :: ulong) = nat (sint delta)"
proof -
  have "(2::int) ^ 31 < 2 ^ 64"
    by (rule power_strict_increasing) simp_all
  then have lt: "sint delta < 2 ^ LENGTH(64)"
    using sint_cint_less [of delta] by simp
  have "uint (scast delta :: ulong) = take_bit LENGTH(64) (sint delta)"
    by (simp only: scast_eq uint_word_of_int_eq)
  also have "\<dots> = sint delta"
    using assms lt by (simp only: take_bit_int_eq_self)
  finally show ?thesis
    by (simp only: unat_eq_nat_uint)
qed

lemma unat_advance:
  fixes i sb P :: ulong and delta :: cint
  assumes room: "unat sb + unat P + 2 ^ 31 \<le> 2 ^ 64"
    and idx: "unat i = unat sb + c"
    and c: "c < unat P"
    and d: "0 \<le> sint delta"
  shows "unat (i + scast delta) = unat sb + c + nat (sint delta)"
    and "unat (sb + P) = unat sb + unat P"
proof -
  have "unat i + unat (scast delta :: ulong) < 2 ^ LENGTH(64)"
    using room idx c nat_sint_cint_less [of delta] by (simp add: unat_scast_nonneg [OF d])
  then show "unat (i + scast delta) = unat sb + c + nat (sint delta)"
    by (simp add: unat_add_lem [THEN iffD1] unat_scast_nonneg [OF d] idx)
  have "unat sb + unat P < 2 ^ LENGTH(64)"
    using room by simp
  then show "unat (sb + P) = unat sb + unat P"
    by (simp add: unat_add_lem [THEN iffD1])
qed

lemma and_0x80_iff: "(w AND 0x80 \<noteq> 0) = bit (w :: cuint) 7"
proof -
  have "(0x80 :: cuint) = 2 ^ 7" by simp
  then show ?thesis by (simp only: and_exp_eq_0_iff_not_bit) simp
qed

lemma and_0x0f: "m AND 0x0f = take_bit 4 (m :: cint)"
  by (simp add: take_bit_eq_mask mask_eq_exp_minus_1)

lemma scast_take_bit_4: "(scast (take_bit 4 (m :: cint)) :: ulong) = ucast (take_bit 4 m)"
  by (rule bit_word_eqI) (auto simp: bit_simps min_def)

lemma mask_0x70: "(0x70 :: cint) = push_bit 4 (mask 3)"
  by (simp add: mask_eq_exp_minus_1 push_bit_eq_mult)

lemma shift_0x70: "signed_drop_bit 4 (m AND 0x70 :: cint) = take_bit 3 (drop_bit 4 m)"
  unfolding mask_0x70
  by (rule bit_word_eqI) (auto simp: bit_simps)

section \<open>The cursor advance\<close>

lemma deref_store: "deref index (store index v s) = v"
  by (cases index) simp_all

lemma deref_store_other: "j \<noteq> index \<Longrightarrow> deref j (store index v s) = deref j s"
  by (cases index; cases j) simp_all

lemma short_buffer_store: "short_buffer (store index v s) = short_buffer s"
  by (cases index) simp_all

lemma deref_short_incr_bp:
  "deref index (short_incr_bp PAGE_SIZE index delta s) =
     (if deref index s + scast delta \<ge> short_buffer s + PAGE_SIZE then short_buffer s
      else deref index s + scast delta)"
  by (simp add: short_incr_bp_def Let_def deref_store)

lemma deref_other_short_incr_bp:
  "j \<noteq> index \<Longrightarrow> deref j (short_incr_bp PAGE_SIZE index delta s) = deref j s"
  by (simp add: short_incr_bp_def Let_def deref_store_other)

lemma short_buffer_short_incr_bp:
  "short_buffer (short_incr_bp PAGE_SIZE index delta s) = short_buffer s"
  by (simp add: short_incr_bp_def Let_def short_buffer_store)

text \<open>
  The advance in base-relative terms. The first hypothesis places the page: it ends at
  least \<open>2 ^ 31\<close> bytes below the top of the 64-bit address space, so that neither
  \<open>short_buffer + PAGE_SIZE\<close> nor \<open>*index + delta\<close> wraps for any non-negative \<open>int\<close>.
\<close>

lemma short_incr_bp_snaps:
  assumes room: "unat (short_buffer s) + unat PAGE_SIZE + 2 ^ 31 \<le> 2 ^ 64"
    and idx: "unat (deref index s) = unat (short_buffer s) + c"
    and c: "c < unat PAGE_SIZE"
    and d: "0 \<le> sint delta"
  shows "unat (deref index (short_incr_bp PAGE_SIZE index delta s)) =
           unat (short_buffer s) +
             (if c + nat (sint delta) < unat PAGE_SIZE then c + nat (sint delta) else 0)"
  using unat_advance [OF room idx c d]
  by (simp add: deref_short_incr_bp word_le_nat_alt)

text \<open>
  Why the page is placed: at the very top of the address space the addition wraps and
  the cursor leaves the buffer.
\<close>

lemma short_incr_bp_wraps_at_top:
  "short_head (short_incr_bp 0x1000 Short_head 0x2000
     (short_globals_init\<lparr>short_buffer := 0xffffffffffffe000, short_head := 0xffffffffffffe000\<rparr>)) = 0"
  by (simp add: short_incr_bp_def short_globals_init_def)

text \<open>
  C1, as the specification states it: for a cursor \<open>c\<close> in \<open>[0, CAP)\<close> and a
  non-negative \<open>delta\<close> the stored cursor is \<open>(c + delta) mod CAP\<close>. It is not: with
  \<open>CAP = 4096\<close>, the buffer at 0, the cursor at 4090 and \<open>delta = 10\<close> the code stores
  0, and \<open>(4090 + 10) mod 4096 = 4\<close>.
\<close>

theorem short_incr_bp_not_modulo:
  "unat (short_head (short_incr_bp 4096 Short_head 10 (short_globals_init\<lparr>short_head := 4090\<rparr>)))
     \<noteq> unat (short_buffer short_globals_init) + (4090 + nat (sint (10 :: cint))) mod unat (4096 :: ulong)"
  by (simp add: short_incr_bp_def short_globals_init_def)

text \<open>
  C1, amended: for a cursor \<open>c\<close> in \<open>[0, CAP)\<close> (relative to \<open>short_buffer\<close>) and a
  non-negative \<open>delta\<close>, \<open>short_incr_bp\<close> stores \<open>c + delta\<close> when \<open>c + delta < CAP\<close>
  and resets the cursor to 0 when \<open>c + delta \<ge> CAP\<close>. The stored cursor is
  \<open>(c + delta) mod CAP\<close> exactly when \<open>c + delta < CAP\<close> or \<open>c + delta\<close> is a
  multiple of \<open>CAP\<close>, so in particular whenever \<open>c + delta \<le> CAP\<close>. The page is
  placed as above.
\<close>

theorem short_incr_bp_snaps_to_base:
  assumes room: "unat (short_buffer s) + unat PAGE_SIZE + 2 ^ 31 \<le> 2 ^ 64"
    and idx: "unat (deref index s) = unat (short_buffer s) + c"
    and c: "c < unat PAGE_SIZE"
    and d: "0 \<le> sint delta"
  shows "unat (deref index (short_incr_bp PAGE_SIZE index delta s)) =
           unat (short_buffer s) +
             (if c + nat (sint delta) < unat PAGE_SIZE then c + nat (sint delta) else 0)
         \<and> (unat (deref index (short_incr_bp PAGE_SIZE index delta s)) =
              unat (short_buffer s) + (c + nat (sint delta)) mod unat PAGE_SIZE
            \<longleftrightarrow> c + nat (sint delta) < unat PAGE_SIZE
                \<or> (c + nat (sint delta)) mod unat PAGE_SIZE = 0)"
  by (simp add: short_incr_bp_snaps [OF room idx c d])

theorem short_incr_bp_snaps_to_base_witness:
  "unat (deref Short_head
      (short_incr_bp 4096 Short_head 6 (short_globals_init\<lparr>short_head := 4090\<rparr>))) = 0
   \<and> unat (deref Short_tail
      (short_incr_bp 4096 Short_tail 6 (short_globals_init\<lparr>short_tail := 4000\<rparr>))) = 4006"
proof -
  let ?s = "short_globals_init\<lparr>short_head := 4090\<rparr>"
  let ?t = "short_globals_init\<lparr>short_tail := 4000\<rparr>"
  have six: "0 \<le> sint (6 :: cint)" by simp
  have "unat (short_buffer ?s) + unat (4096 :: ulong) + 2 ^ 31 \<le> 2 ^ 64"
    and "unat (deref Short_head ?s) = unat (short_buffer ?s) + 4090"
    and "4090 < unat (4096 :: ulong)"
    by (simp_all add: short_globals_init_def)
  from short_incr_bp_snaps_to_base [OF this six]
  have head: "unat (deref Short_head (short_incr_bp 4096 Short_head 6 ?s)) = 0"
    by (simp add: short_globals_init_def)
  have "unat (short_buffer ?t) + unat (4096 :: ulong) + 2 ^ 31 \<le> 2 ^ 64"
    and "unat (deref Short_tail ?t) = unat (short_buffer ?t) + 4000"
    and "4000 < unat (4096 :: ulong)"
    by (simp_all add: short_globals_init_def)
  from short_incr_bp_snaps_to_base [OF this six]
  have tail: "unat (deref Short_tail (short_incr_bp 4096 Short_tail 6 ?t)) = 4006"
    by (simp add: short_globals_init_def)
  from head tail show ?thesis by (rule conjI)
qed

text \<open>
  C2, as the specification states it: a cursor in
  \<open>[short_buffer, short_buffer + PAGE_SIZE)\<close> advanced by a non-negative \<open>delta\<close> is in
  that range again. It is not, for a page at the top of the address space: with the
  buffer and the cursor at \<open>0xffffffffffffe000\<close>, \<open>PAGE_SIZE = 0x1000\<close> and
  \<open>delta = 0x2000\<close> the cursor is in the range before the call, \<open>*index + delta\<close> wraps
  to 0, which is not above the end of the page, and 0 is stored: the cursor is below
  \<open>short_buffer\<close> afterwards.
\<close>

theorem short_incr_bp_leaves_buffer_at_top:
  "unat (short_buffer (short_globals_init
      \<lparr>short_buffer := 0xffffffffffffe000, short_head := 0xffffffffffffe000\<rparr>))
     \<le> unat (deref Short_head (short_globals_init
      \<lparr>short_buffer := 0xffffffffffffe000, short_head := 0xffffffffffffe000\<rparr>))
   \<and> unat (deref Short_head (short_globals_init
      \<lparr>short_buffer := 0xffffffffffffe000, short_head := 0xffffffffffffe000\<rparr>))
     < unat (short_buffer (short_globals_init
      \<lparr>short_buffer := 0xffffffffffffe000, short_head := 0xffffffffffffe000\<rparr>))
       + unat (0x1000 :: ulong)
   \<and> 0 \<le> sint (0x2000 :: cint)
   \<and> \<not> unat (short_buffer (short_globals_init
      \<lparr>short_buffer := 0xffffffffffffe000, short_head := 0xffffffffffffe000\<rparr>))
     \<le> unat (deref Short_head (short_incr_bp 0x1000 Short_head 0x2000 (short_globals_init
      \<lparr>short_buffer := 0xffffffffffffe000, short_head := 0xffffffffffffe000\<rparr>)))"
  by (simp add: short_incr_bp_def short_globals_init_def)

text \<open>
  C2, amended: when the page ends at least \<open>2 ^ 31\<close> bytes below the top of the 64-bit
  address space, a cursor in \<open>[short_buffer, short_buffer + PAGE_SIZE)\<close> advanced by a
  non-negative \<open>delta\<close> is in that range again, \<open>short_buffer\<close> itself is unchanged,
  and the other cursor keeps its value; so \<open>0 \<le> head < CAP\<close> and \<open>0 \<le> tail < CAP\<close>
  are preserved by every advance.
\<close>

theorem short_incr_bp_stays_in_buffer:
  assumes room: "unat (short_buffer s) + unat PAGE_SIZE + 2 ^ 31 \<le> 2 ^ 64"
    and lo: "unat (short_buffer s) \<le> unat (deref index s)"
    and hi: "unat (deref index s) < unat (short_buffer s) + unat PAGE_SIZE"
    and d: "0 \<le> sint delta"
  shows "short_buffer (short_incr_bp PAGE_SIZE index delta s) = short_buffer s
         \<and> unat (short_buffer s) \<le> unat (deref index (short_incr_bp PAGE_SIZE index delta s))
         \<and> unat (deref index (short_incr_bp PAGE_SIZE index delta s))
             < unat (short_buffer s) + unat PAGE_SIZE
         \<and> (\<forall>j. j = index \<or> deref j (short_incr_bp PAGE_SIZE index delta s) = deref j s)"
proof -
  define c where "c = unat (deref index s) - unat (short_buffer s)"
  have idx: "unat (deref index s) = unat (short_buffer s) + c"
    using lo by (simp add: c_def)
  have c: "c < unat PAGE_SIZE"
    using hi lo by (simp add: c_def)
  have other: "\<forall>j. j = index \<or> deref j (short_incr_bp PAGE_SIZE index delta s) = deref j s"
    using deref_other_short_incr_bp by blast
  show ?thesis
    using c other
    by (simp add: short_incr_bp_snaps [OF room idx c d] short_buffer_short_incr_bp)
qed

theorem short_incr_bp_stays_in_buffer_witness:
  "unat (deref Short_head
      (short_incr_bp 4096 Short_head 10 (short_globals_init\<lparr>short_head := 4090\<rparr>))) < 4096
   \<and> deref Short_tail
      (short_incr_bp 4096 Short_head 10 (short_globals_init\<lparr>short_head := 4090\<rparr>)) = 0"
proof -
  let ?s = "short_globals_init\<lparr>short_head := 4090\<rparr>"
  have "unat (short_buffer ?s) + unat (4096 :: ulong) + 2 ^ 31 \<le> 2 ^ 64"
    and "unat (short_buffer ?s) \<le> unat (deref Short_head ?s)"
    and "unat (deref Short_head ?s) < unat (short_buffer ?s) + unat (4096 :: ulong)"
    and "0 \<le> sint (10 :: cint)"
    by (simp_all add: short_globals_init_def)
  from short_incr_bp_stays_in_buffer [OF this]
  show ?thesis
    by (auto simp: short_globals_init_def)
qed

section \<open>Open and release\<close>

text \<open>
  C4: \<open>short_open\<close> stores \<open>short_i_fops\<close> in the file's \<open>f_op\<close> when bit 7 (0x80)
  of the inode's minor number is set, and leaves the file structure as it was when bit
  7 is clear. So a file that did not have that table before has it afterwards if and
  only if bit 7 is set.
\<close>

theorem short_open_routes_on_bit_7:
  "snd (short_open iminor inode filp) =
     (if bit (iminor inode) 7 then filp\<lparr>f_op := Short_i_fops\<rparr> else filp)
   \<and> f_op (snd (short_open iminor inode filp)) =
     (if bit (iminor inode) 7 then Short_i_fops else f_op filp)
   \<and> ((f_op (snd (short_open iminor inode filp)) = Short_i_fops) =
      (bit (iminor inode) 7 \<or> f_op filp = Short_i_fops))"
  using and_0x80_iff [of "iminor inode"] by (simp add: short_open_def)

text \<open>
  C9: \<open>short_open\<close> and \<open>short_release\<close> return 0 for every inode and file, whatever
  the minor number.
\<close>

theorem short_open_release_return_0:
  "fst (short_open iminor inode filp) = 0 \<and> fst (short_release inode filp') = 0"
  by (simp add: short_open_def short_release_def)

section \<open>Module parameters\<close>

text \<open>
  C7: with no module parameter supplied, \<open>base\<close> is \<open>0x378\<close> and \<open>irq\<close> is \<open>-1\<close>.
\<close>

theorem module_load_defaults:
  "base (module_load no_params) = 0x378 \<and> sint (irq (module_load no_params)) = - 1"
  by (simp add: module_load_def no_params_def short_globals_init_def)

section \<open>The locals of the port-oriented read\<close>

lemma port_do_short_read:
  "port (do_short_read iminor s inode filp buf count f_ops) =
     short_base s + ucast (take_bit 4 (iminor inode))"
  by (simp add: do_short_read_def Let_def and_0x0f scast_take_bit_4)

lemma address_do_short_read:
  "address (do_short_read iminor s inode filp buf count f_ops) =
     short_base s + scast (iminor inode * 0x0f)"
  by (simp add: do_short_read_def Let_def)

lemma mode_do_short_read:
  "mode (do_short_read iminor s inode filp buf count f_ops) =
     take_bit 3 (drop_bit 4 (iminor inode))"
  by (simp add: do_short_read_def Let_def shift_0x70)

lemma unat_bits_0_3: "unat (take_bit 4 (m :: cint)) = unat m mod 16"
proof -
  have "unat (take_bit 4 m) = take_bit 4 (unat m)"
    by (simp only: unsigned_take_bit_eq)
  then show ?thesis by (simp add: take_bit_eq_mod)
qed

lemma ucast_bits_0_3: "(ucast (take_bit 4 (m :: cint)) :: ulong) = of_nat (unat m mod 16)"
  by (simp only: unat_bits_0_3 [symmetric] of_nat_unat)

lemma unat_bits_4_6: "unat (take_bit 3 (drop_bit 4 (m :: cint))) = unat m div 16 mod 8"
proof -
  have "unat (take_bit 3 (drop_bit 4 m)) = take_bit 3 (drop_bit 4 (unat m))"
    by (simp only: unsigned_take_bit_eq unat_drop_bit_eq)
  then show ?thesis by (simp add: take_bit_eq_mod drop_bit_eq_div)
qed

lemma drop_0x70: "drop_bit 4 (m AND 0x70 :: cint) = take_bit 3 (drop_bit 4 m)"
  unfolding mask_0x70
  by (rule bit_word_eqI) (auto simp: bit_simps)

lemma sint_small:
  fixes w :: cint
  assumes "unat w < 2 ^ 31"
  shows "sint w = int (unat w)"
proof -
  have "int (unat w) < int (2 ^ 31)"
    using assms by (simp only: of_nat_less_iff)
  then have lt: "uint w < 2 ^ 31"
    by (simp only: of_nat_power of_nat_numeral flip: uint_nat)
  have "- (2 ^ 31) \<le> uint w"
    by (rule order_trans [of _ 0]) simp_all
  then have "signed_take_bit 31 (uint w) = uint w"
    using lt by (rule signed_take_bit_int_eq_self)
  then show ?thesis
    by (simp add: sint_uint)
qed

lemma scast_times_15:
  fixes m :: cint
  assumes fits: "15 * unat m < 2 ^ 31"
  shows "(scast (m * 0x0f) :: ulong) = of_nat (15 * unat m)"
proof -
  have "unat m * unat (0x0f :: cint) < 2 ^ LENGTH(32)"
    using fits by simp
  then have prod: "unat (m * 0x0f) = unat m * unat (0x0f :: cint)"
    by (simp only: unat_mult_lem)
  then have u: "unat (m * 0x0f) = 15 * unat m"
    by simp
  then have "sint (m * 0x0f) = int (15 * unat m)"
    using fits sint_small [of "m * 0x0f"] by simp
  then show ?thesis
    by (simp add: scast_eq)
qed

lemma fifteen_times_eq_mod: "(15 * (u::nat) = u mod 16) = (u = 0)"
proof
  assume eq: "15 * u = u mod 16"
  have "u mod 16 \<le> u"
    by (rule mod_less_eq_dividend)
  with eq have "15 * u \<le> u"
    by (simp only:)
  then show "u = 0"
    by simp
next
  assume "u = 0"
  then show "15 * u = u mod 16"
    by simp
qed

lemma of_nat_ulong_inject:
  assumes "a < 2 ^ 64" and "b < 2 ^ 64"
  shows "(of_nat a :: ulong) = of_nat b \<longleftrightarrow> a = b"
  using assms by (simp add: word_of_nat_eq_iff take_bit_nat_eq_self)

text \<open>
  C6: for every minor number the port is \<open>short_base\<close> plus the low four bits of the
  minor, and the mode is bits 4 to 6 of the minor. Both are given bitwise and as
  numbers.
\<close>

theorem do_short_read_port_and_mode:
  "port (do_short_read iminor s inode filp buf count f_ops) =
     short_base s + ucast (take_bit 4 (iminor inode))
   \<and> port (do_short_read iminor s inode filp buf count f_ops) =
     short_base s + of_nat (unat (iminor inode) mod 16)
   \<and> mode (do_short_read iminor s inode filp buf count f_ops) =
     take_bit 3 (drop_bit 4 (iminor inode))
   \<and> unat (mode (do_short_read iminor s inode filp buf count f_ops)) =
     unat (iminor inode) div 16 mod 8
   \<and> mode (do_short_read iminor s inode filp buf count f_ops) =
     drop_bit 4 (iminor inode AND 0x70)"
  by (simp only: port_do_short_read mode_do_short_read ucast_bits_0_3 unat_bits_4_6 drop_0x70)

text \<open>
  C5: the memory-mapped address is \<open>short_base + minor * 0x0f\<close>: for a minor whose
  product with 15 fits an \<open>int\<close> it is \<open>short_base\<close> plus 15 times the minor, while
  the port is \<open>short_base\<close> plus the minor masked with \<open>0x0f\<close>. The two differ for
  every such minor but 0; for minor 1 they are \<open>short_base + 15\<close> and
  \<open>short_base + 1\<close>.
\<close>

theorem do_short_read_address_multiplies:
  assumes fits: "15 * unat (iminor inode) < 2 ^ 31"
  shows "address (do_short_read iminor s inode filp buf count f_ops) =
           short_base s + of_nat (15 * unat (iminor inode))
         \<and> port (do_short_read iminor s inode filp buf count f_ops) =
           short_base s + of_nat (unat (iminor inode) mod 16)
         \<and> ((address (do_short_read iminor s inode filp buf count f_ops) =
              port (do_short_read iminor s inode filp buf count f_ops))
            = (iminor inode = 0))"
proof -
  let ?u = "unat (iminor inode)"
  have a: "address (do_short_read iminor s inode filp buf count f_ops) =
             short_base s + of_nat (15 * ?u)"
    by (simp only: address_do_short_read scast_times_15 [OF fits])
  have p: "port (do_short_read iminor s inode filp buf count f_ops) =
             short_base s + of_nat (?u mod 16)"
    by (simp only: port_do_short_read ucast_bits_0_3)
  have "(2::nat) ^ 31 < 2 ^ 64"
    by (rule power_strict_increasing) simp_all
  then have big: "15 * ?u < 2 ^ 64"
    using fits by (rule order_less_trans [rotated])
  have small: "?u mod 16 < 2 ^ 64"
    by (rule order_less_trans [of _ 16]) simp_all
  have "((of_nat (15 * ?u) :: ulong) = of_nat (?u mod 16)) = (15 * ?u = ?u mod 16)"
    by (rule of_nat_ulong_inject [OF big small])
  also have "\<dots> = (?u = 0)"
    by (rule fifteen_times_eq_mod)
  also have "\<dots> = (iminor inode = 0)"
    by (simp add: unat_eq_0)
  finally have "((of_nat (15 * ?u) :: ulong) = of_nat (?u mod 16)) = (iminor inode = 0)" .
  then have "(address (do_short_read iminor s inode filp buf count f_ops) =
              port (do_short_read iminor s inode filp buf count f_ops))
            = (iminor inode = 0)"
    by (simp only: a p add_left_cancel)
  with a p show ?thesis by (intro conjI)
qed

theorem do_short_read_address_multiplies_witness:
  "address (do_short_read (\<lambda>_. 1) (short_globals_init\<lparr>short_base := 0x378\<rparr>) ()
      \<lparr>f_op = Other_fops 0\<rparr> 0 0 0) = 0x387
   \<and> port (do_short_read (\<lambda>_. 1) (short_globals_init\<lparr>short_base := 0x378\<rparr>) ()
      \<lparr>f_op = Other_fops 0\<rparr> 0 0 0) = 0x379
   \<and> address (do_short_read (\<lambda>_. 1) (short_globals_init\<lparr>short_base := 0x378\<rparr>) ()
      \<lparr>f_op = Other_fops 0\<rparr> 0 0 0)
     \<noteq> port (do_short_read (\<lambda>_. 1) (short_globals_init\<lparr>short_base := 0x378\<rparr>) ()
      \<lparr>f_op = Other_fops 0\<rparr> 0 0 0)"
  using do_short_read_address_multiplies
    [where iminor = "\<lambda>_ :: unit. 1" and inode = "()"
       and s = "short_globals_init\<lparr>short_base := 0x378\<rparr>"
       and filp = "\<lparr>f_op = Other_fops 0\<rparr>" and buf = 0 and count = 0 and f_ops = 0]
  by simp

text \<open>
  C8: minor \<open>0x40\<close> has bit 7 clear, and its mode is 4, which is greater than 3 and is
  the value of none of the four \<open>short_modes\<close> enumerators.
\<close>

theorem do_short_read_mode_outside_enum:
  assumes m: "iminor inode = 0x40"
  shows "\<not> bit (iminor inode) 7
         \<and> mode (do_short_read iminor s inode filp buf count f_ops) = 4
         \<and> 3 < sint (mode (do_short_read iminor s inode filp buf count f_ops))
         \<and> (\<forall>e. short_modes_val e \<noteq> mode (do_short_read iminor s inode filp buf count f_ops))"
proof -
  have four: "mode (do_short_read iminor s inode filp buf count f_ops) = 4"
    by (simp add: do_short_read_def Let_def m)
  have none: "short_modes_val e \<noteq> 4" for e
    by (cases e) simp_all
  have clear: "\<not> bit (iminor inode) 7"
    using and_0x80_iff [of "iminor inode"] by (simp add: m)
  show ?thesis
    using clear none by (simp add: four)
qed

theorem do_short_read_mode_outside_enum_witness:
  "\<not> bit (0x40 :: cuint) 7
   \<and> mode (do_short_read (\<lambda>_. 0x40) short_globals_init () \<lparr>f_op = Other_fops 0\<rparr> 0 0 0) = 4
   \<and> short_modes_val SHORT_MEMORY
       \<noteq> mode (do_short_read (\<lambda>_. 0x40) short_globals_init () \<lparr>f_op = Other_fops 0\<rparr> 0 0 0)"
  using do_short_read_mode_outside_enum
    [where iminor = "\<lambda>_ :: unit. 0x40" and inode = "()" and s = short_globals_init
       and filp = "\<lparr>f_op = Other_fops 0\<rparr>" and buf = 0 and count = 0 and f_ops = 0]
  by simp

section \<open>sram.h without CONFIG\_SRAM\_EXEC\<close>

text \<open>
  C10: both functions return \<open>-ENODEV\<close> for every input and leave the memory their
  arguments point into as it was; the result is the same for any other arguments and
  memory, so nothing of them is inspected. With Linux's \<open>ENODEV = 19\<close> the value
  returned is \<open>-19\<close>.
\<close>

theorem sram_protect_exec_stubs:
  "sram_check_protect_exec ENODEV sram block part h = (- ENODEV, h)
   \<and> sram_add_protect_exec ENODEV part h = (- ENODEV, h)
   \<and> fst (sram_check_protect_exec ENODEV sram block part h) =
       fst (sram_check_protect_exec ENODEV sram' block' part' h')
   \<and> fst (sram_add_protect_exec ENODEV part h) = fst (sram_add_protect_exec ENODEV part' h')
   \<and> sint (fst (sram_check_protect_exec 19 sram block part h)) = - 19
   \<and> sint (fst (sram_add_protect_exec 19 part h)) = - 19"
  by (simp add: sram_check_protect_exec_def sram_add_protect_exec_def)

end
